theory Spec2Isabelle
  imports Complex_Main "HOL-Library.Sublist" "HOL-Library.Multiset"
begin

section \<open>Python strings\<close>

text \<open>
  Strings are byte strings. \<open>str.lower\<close> and \<open>str.upper\<close> are modelled on the ASCII
  letters; every other byte is left as it is. The substring test \<open>a in b\<close> of Python is
  \<^const>\<open>sublist\<close>: \<open>sublist a b\<close> holds when \<open>b = ps @ a @ ss\<close> for some \<open>ps\<close>, \<open>ss\<close>.
\<close>

definition lower_char :: "char \<Rightarrow> char" where
  "lower_char c =
     (case map_of (zip ''ABCDEFGHIJKLMNOPQRSTUVWXYZ'' ''abcdefghijklmnopqrstuvwxyz'') c of
        Some d \<Rightarrow> d
      | None \<Rightarrow> c)"

definition upper_char :: "char \<Rightarrow> char" where
  "upper_char c =
     (case map_of (zip ''abcdefghijklmnopqrstuvwxyz'' ''ABCDEFGHIJKLMNOPQRSTUVWXYZ'') c of
        Some d \<Rightarrow> d
      | None \<Rightarrow> c)"

definition lower :: "string \<Rightarrow> string" where
  "lower s = map lower_char s"

definition upper :: "string \<Rightarrow> string" where
  "upper s = map upper_char s"

section \<open>The card model (src/data/models.py)\<close>

text \<open>
  The fields of \<open>Card\<close>. The field \<open>type\<close> of the source is \<open>card_type\<close> here.
\<close>

record card =
  name :: string
  cost :: int
  influence :: string
  card_type :: string
  card_text :: string
  rarity :: string
  deck_buildable :: bool
  set_number :: string
  attack :: "int option"
  health :: "int option"
  eternal_id :: "string option"
  image_url :: "string option"
  unit_types :: "string list"
  set_name :: "string option"

text \<open>\<open>Card.is_power\<close>: \<open>self.type.lower() == "power"\<close>.\<close>

definition is_power :: "card \<Rightarrow> bool" where
  "is_power c = (lower (card_type c) = ''power'')"

text \<open>\<open>Card.is_unit\<close> and \<open>Card.is_spell\<close>.\<close>

definition is_unit :: "card \<Rightarrow> bool" where
  "is_unit c = (lower (card_type c) = ''unit'')"

definition is_spell :: "card \<Rightarrow> bool" where
  "is_spell c = (lower (card_type c) = ''spell'')"

text \<open>\<open>Card.is_sigil\<close>: \<open>self.is_power and "sigil" in self.name.lower()\<close>.\<close>

definition is_sigil :: "card \<Rightarrow> bool" where
  "is_sigil c = (is_power c \<and> sublist ''sigil'' (lower (name c)))"

text \<open>
  \<open>Card.can_access_market\<close>: False on an empty text, otherwise whether any of the three
  patterns occurs in the lowercased text.
\<close>

definition market_patterns :: "string list" where
  "market_patterns = [''your market'', ''from your market'', ''in your market'']"

definition can_access_market :: "card \<Rightarrow> bool" where
  "can_access_market c =
     (if card_text c = [] then False
      else (let text_lower = lower (card_text c)
            in list_ex (\<lambda>pattern. sublist pattern text_lower) market_patterns))"

section \<open>The strategy analysis (src/agents/strategy\_scout.py)\<close>

text \<open>
  The dataclass \<open>StrategyAnalysis\<close>. The confidence score is a float in the source; it
  is only stored, never computed with.
\<close>

record strategy_analysis =
  archetype :: string
  speed :: string
  primary_faction :: "string option"
  secondary_factions :: "string list"
  key_mechanics :: "string list"
  tribal_focus :: "string option"
  must_include_cards :: "string list"
  market_preference :: bool
  preferred_win_conditions :: "string list"
  confidence_score :: real
  interpretation_notes :: string

text \<open>
  \<open>StrategyScoutAgent._parse_ai_response\<close>. The response of the model is a value of
  the library type \<open>RunResponse\<close>, a type parameter here.
\<close>

definition parse_ai_response :: "'response \<Rightarrow> strategy_analysis \<Rightarrow> strategy_analysis" where
  "parse_ai_response response initial = initial"

section \<open>Python values\<close>

text \<open>
  The exceptions the modelled code can raise. \<open>StoreError\<close> stands for any exception of
  the vector store or of the embedding model, which are libraries outside the repository.
\<close>

datatype py_error = ValueError | AttributeError | StoreError

text \<open>Truthiness of an optional list or string: \<open>None\<close> and the empty value are false.\<close>

definition truthy :: "'a list option \<Rightarrow> bool" where
  "truthy v = (case v of None \<Rightarrow> False | Some xs \<Rightarrow> xs \<noteq> [])"

definition opt_list :: "'a list option \<Rightarrow> 'a list" where
  "opt_list v = (case v of None \<Rightarrow> [] | Some xs \<Rightarrow> xs)"

text \<open>
  The slice \<open>xs[:n]\<close>: the first \<open>n\<close> elements for \<open>n \<ge> 0\<close>, and all but the last
  \<open>-n\<close> elements for a negative \<open>n\<close>.
\<close>

definition py_slice_to :: "'a list \<Rightarrow> int \<Rightarrow> 'a list" where
  "py_slice_to xs n =
     (if 0 \<le> n then take (nat n) xs else take (nat (int (length xs) + n)) xs)"

text \<open>\<open>xs.index(x)\<close>; \<open>None\<close> is the \<open>ValueError\<close> of a missing element.\<close>

fun py_index :: "'a list \<Rightarrow> 'a \<Rightarrow> nat option" where
  "py_index [] x = None"
| "py_index (y # ys) x = (if y = x then Some 0 else map_option Suc (py_index ys x))"

section \<open>The search engine (src/rag/search\_engine.py)\<close>

text \<open>
  \<open>FACTION_SYMBOLS\<close> of src/config.py, in the insertion order of the dictionary.
\<close>

definition FACTION_SYMBOLS :: "(string \<times> string) list" where
  "FACTION_SYMBOLS =
     [(''Fire'', ''{F}''), (''Time'', ''{T}''), (''Justice'', ''{J}''),
      (''Primal'', ''{P}''), (''Shadow'', ''{S}'')]"

text \<open>
  The dataclass \<open>SearchFilters\<close>. Its fields \<open>archetype\<close> and \<open>unit_types\<close> are
  \<open>filter_archetype\<close> and \<open>filter_unit_types\<close> here, the plain names being fields of
  the analysis and of the card.
\<close>

record search_filters =
  allowed_factions :: "string list option"
  max_factions_per_card :: "int option"
  format :: string
  max_rarity :: "string option"
  filter_archetype :: "string option"
  min_cost :: "int option"
  max_cost :: "int option"
  card_types :: "string list option"
  filter_unit_types :: "string list option"
  must_include :: "string list option"
  must_exclude :: "string list option"
  include_market :: bool
  market_access_only :: bool

text \<open>\<open>SearchFilters()\<close>, every field at its default.\<close>

definition default_filters :: search_filters where
  "default_filters =
     \<lparr>allowed_factions = None, max_factions_per_card = None, format = ''Throne'',
      max_rarity = None, filter_archetype = None, min_cost = None, max_cost = None,
      card_types = None, filter_unit_types = None, must_include = None,
      must_exclude = None, include_market = True, market_access_only = False\<rparr>"

text \<open>
  The dataclass \<open>SearchResult\<close>, without \<open>search_time\<close>, which is a difference of two
  readings of the clock.
\<close>

record search_result =
  cards :: "card list"
  total_found :: nat
  query :: string
  query_interpretation :: string
  filters_applied :: "search_filters option"
  used_chromadb :: bool

text \<open>
  The \<open>where\<close> dictionary handed to the vector store, with its three possible keys, and
  the metadata dictionary of one hit.
\<close>

record where_clause =
  where_type :: "string list option"
  where_rarity :: "string list option"
  where_can_access_market :: "bool option"

type_synonym metadata = "string \<rightharpoonup> string"

text \<open>
  The state of a \<open>SearchEngine\<close> after \<open>__init__\<close>. \<open>vector_query q n w\<close> is the
  embedding of \<open>q\<close> followed by \<open>cards_collection.query\<close> with \<open>n_results = n\<close> and
  \<open>where = w\<close>; it gives the list \<open>results['metadatas'][0]\<close> or raises.
\<close>

record search_engine =
  chromadb_available :: bool
  all_cards :: "card list"
  vector_query :: "string \<Rightarrow> int \<Rightarrow> where_clause option \<Rightarrow> py_error + metadata list"

text \<open>
  \<open>cards_by_name\<close> of \<open>_load_card_cache\<close>: a dictionary comprehension over
  \<open>all_cards\<close>, so a later card replaces an earlier one with the same lowercased name.
\<close>

definition cards_by_name :: "search_engine \<Rightarrow> string \<rightharpoonup> card" where
  "cards_by_name e = fold (\<lambda>c m. m(lower (name c) \<mapsto> c)) (all_cards e) Map.empty"

text \<open>\<open>_filter_by_factions\<close>: the two loops that build sets, then the loop over the cards.\<close>

definition allowed_symbols :: "string list \<Rightarrow> string set" where
  "allowed_symbols factions =
     fold (\<lambda>faction acc.
             case map_of FACTION_SYMBOLS faction of
               None \<Rightarrow> acc
             | Some symbol \<Rightarrow> if symbol \<noteq> [] then insert symbol acc else acc)
          factions {}"

definition card_factions :: "card \<Rightarrow> string set" where
  "card_factions c =
     fold (\<lambda>symbol acc. if sublist symbol (influence c) then insert symbol acc else acc)
          (map snd FACTION_SYMBOLS) {}"

definition filter_by_factions :: "card list \<Rightarrow> search_filters \<Rightarrow> card list" where
  "filter_by_factions cs filters =
     (if \<not> truthy (allowed_factions filters) then cs
      else
        (let allowed = allowed_symbols (opt_list (allowed_factions filters))
         in filter (\<lambda>c. let cf = card_factions c
                         in cf \<subseteq> allowed \<and>
                            (case max_factions_per_card filters of
                               None \<Rightarrow> True
                             | Some m \<Rightarrow> m = 0 \<or> int (card cf) \<le> m))
                   cs))"

text \<open>\<open>_apply_post_filters\<close>. The Expedition branch of the source is \<open>pass\<close>.\<close>

definition apply_post_filters :: "card list \<Rightarrow> search_filters \<Rightarrow> card list" where
  "apply_post_filters cs filters =
     (let results = cs;
          results = (case min_cost filters of
                       None \<Rightarrow> results
                     | Some lo \<Rightarrow> filter (\<lambda>c. cost c \<ge> lo) results);
          results = (case max_cost filters of
                       None \<Rightarrow> results
                     | Some hi \<Rightarrow> filter (\<lambda>c. cost c \<le> hi) results);
          results = (if truthy (filter_unit_types filters) then
                       (let unit_types_lower = map lower (opt_list (filter_unit_types filters))
                        in filter (\<lambda>c. list_ex (\<lambda>ut. lower ut \<in> set unit_types_lower)
                                                 (unit_types c)) results)
                     else results);
          results = (if truthy (allowed_factions filters)
                     then filter_by_factions results filters else results)
      in results)"

text \<open>\<open>_browse_with_filters\<close>.\<close>

definition browse_with_filters :: "search_engine \<Rightarrow> search_filters \<Rightarrow> int \<Rightarrow> card list" where
  "browse_with_filters e filters n_results =
     py_slice_to (apply_post_filters (all_cards e) filters) n_results"

text \<open>\<open>_simple_search_with_filters\<close>.\<close>

definition simple_search_with_filters ::
  "search_engine \<Rightarrow> string \<Rightarrow> search_filters \<Rightarrow> int \<Rightarrow> card list" where
  "simple_search_with_filters e q filters n_results =
     (let query_lower = lower q;
          results = filter (\<lambda>c. sublist query_lower (lower (name c)) \<or>
                                 sublist query_lower (lower (card_text c))) (all_cards e)
      in apply_post_filters results filters)"

text \<open>
  \<open>_semantic_search_with_filters\<close>. First the \<open>where\<close> dictionary; \<open>rarities.index\<close>
  raises \<open>ValueError\<close> on a rarity that is not in the list.
\<close>

definition rarities :: "string list" where
  "rarities = [''Common'', ''Uncommon'', ''Rare'', ''Legendary'']"

definition empty_where :: where_clause where
  "empty_where = \<lparr>where_type = None, where_rarity = None, where_can_access_market = None\<rparr>"

definition build_where_clause :: "search_filters \<Rightarrow> py_error + where_clause" where
  "build_where_clause filters =
     (let w = empty_where;
          w = (if truthy (card_types filters) then w\<lparr>where_type := card_types filters\<rparr> else w)
      in case (if truthy (max_rarity filters) then
                 (case py_index rarities (opt_list (max_rarity filters)) of
                    None \<Rightarrow> Inl ValueError
                  | Some max_idx \<Rightarrow> Inr (w\<lparr>where_rarity := Some (take (max_idx + 1) rarities)\<rparr>))
               else Inr w) of
           Inl err \<Rightarrow> Inl err
         | Inr w \<Rightarrow>
             Inr (if market_access_only filters then w\<lparr>where_can_access_market := Some True\<rparr>
                  else if \<not> include_market filters then w\<lparr>where_can_access_market := Some False\<rparr>
                  else w))"

text \<open>The loop that turns the hits into cards of the cache.\<close>

definition cards_of_metadatas :: "search_engine \<Rightarrow> metadata list \<Rightarrow> card list" where
  "cards_of_metadatas e metadatas =
     List.map_filter
       (\<lambda>md. case md ''name'' of
                None \<Rightarrow> None
              | Some card_name \<Rightarrow>
                  if card_name \<noteq> [] then cards_by_name e (lower card_name) else None)
       metadatas"

definition semantic_search_with_filters ::
  "search_engine \<Rightarrow> string \<Rightarrow> search_filters \<Rightarrow> int \<Rightarrow> py_error + card list" where
  "semantic_search_with_filters e q filters n_results =
     (case build_where_clause filters of
        Inl err \<Rightarrow> Inl err
      | Inr w \<Rightarrow>
          (let search_multiplier = (if truthy (allowed_factions filters) then 3 else 2)
           in case vector_query e q (min (n_results * search_multiplier) 1000)
                     (if w = empty_where then None else Some w) of
                Inl err \<Rightarrow> Inl err
              | Inr metadatas \<Rightarrow>
                  Inr (apply_post_filters (cards_of_metadatas e metadatas) filters)))"

text \<open>
  \<open>_ensure_must_include\<close>. \<open>result_names\<close> is computed once, before the loop, and each
  missing card of the cache is inserted at the front.
\<close>

definition result_names :: "card list \<Rightarrow> string set" where
  "result_names results = set (map (\<lambda>c. lower (name c)) results)"

fun ensure_loop ::
  "search_engine \<Rightarrow> string set \<Rightarrow> string list \<Rightarrow> card list \<Rightarrow> card list" where
  "ensure_loop e names [] results = results"
| "ensure_loop e names (required_name # rest) results =
     (let required_lower = lower required_name
      in case cards_by_name e required_lower of
           Some c \<Rightarrow>
             if required_lower \<notin> names then ensure_loop e names rest (c # results)
             else ensure_loop e names rest results
         | None \<Rightarrow> ensure_loop e names rest results)"

definition ensure_must_include :: "search_engine \<Rightarrow> card list \<Rightarrow> string list \<Rightarrow> card list" where
  "ensure_must_include e results required = ensure_loop e (result_names results) required results"

text \<open>\<open>_apply_exclusions\<close>.\<close>

definition apply_exclusions :: "card list \<Rightarrow> string list \<Rightarrow> card list" where
  "apply_exclusions results excluded =
     (let exclude_lower = set (map lower excluded)
      in filter (\<lambda>c. lower (name c) \<notin> exclude_lower) results)"

text \<open>
  \<open>search\<close>. The three interpretation strings, the choice of the path (lines 147 to
  163), and the rest of the function.
\<close>

definition browsing_label :: string where
  "browsing_label = ''Browsing com filtros''"

definition semantic_label :: "string \<Rightarrow> string" where
  "semantic_label q =
     ''Busca sem'' @ [CHR 0xC3, CHR 0xA2] @ ''ntica: '' @ [CHR 0x27] @ q @ [CHR 0x27]"

definition simple_label :: "string \<Rightarrow> string" where
  "simple_label q = ''Busca simples: '' @ [CHR 0x27] @ q @ [CHR 0x27]"

definition search_path ::
  "search_engine \<Rightarrow> string \<Rightarrow> search_filters \<Rightarrow> int \<Rightarrow> py_error + (card list \<times> string \<times> bool)" where
  "search_path e q filters n_results =
     (if q = [] \<and> \<not> truthy (must_include filters) then
        Inr (browse_with_filters e filters n_results, browsing_label, False)
      else if chromadb_available e \<and> q \<noteq> [] then
        (case semantic_search_with_filters e q filters n_results of
           Inl err \<Rightarrow> Inl err
         | Inr results \<Rightarrow> Inr (results, semantic_label q, True))
      else
        Inr (simple_search_with_filters e q filters n_results, simple_label q, False))"

text \<open>\<open>filters or SearchFilters()\<close>: an instance of the dataclass is always true.\<close>

definition filters_or_default :: "search_filters option \<Rightarrow> search_filters" where
  "filters_or_default filters_arg =
     (case filters_arg of None \<Rightarrow> default_filters | Some f \<Rightarrow> f)"

text \<open>Lines 165 to 171: the required cards, then the excluded ones.\<close>

definition include_and_exclude ::
  "search_engine \<Rightarrow> search_filters \<Rightarrow> card list \<Rightarrow> card list" where
  "include_and_exclude e filters results0 =
     (let results = (if truthy (must_include filters)
                     then ensure_must_include e results0 (opt_list (must_include filters))
                     else results0);
          results = (if truthy (must_exclude filters)
                     then apply_exclusions results (opt_list (must_exclude filters))
                     else results)
      in results)"

definition search ::
  "search_engine \<Rightarrow> string \<Rightarrow> search_filters option \<Rightarrow> int \<Rightarrow> py_error + search_result" where
  "search e q filters_arg n_results =
     (let filters = filters_or_default filters_arg
      in case search_path e q filters n_results of
           Inl err \<Rightarrow> Inl err
         | Inr (results0, interpretation, used) \<Rightarrow>
             (let results = include_and_exclude e filters results0;
                  final_results = py_slice_to results n_results
              in Inr \<lparr>cards = final_results, total_found = length results, query = q,
                      query_interpretation = interpretation, filters_applied = Some filters,
                      used_chromadb = used\<rparr>))"

section \<open>The card pool of the scout (src/agents/strategy\_scout.py)\<close>

text \<open>
  \<open>_organize_card_pool\<close>. \<open>_calculate_relevance\<close> computes its score in floating
  point; the score is the parameter \<open>relevance\<close> here, and what is proved holds for
  every score. A float is at least the float \<open>0.8\<close> exactly when its value is at least
  \<open>8/10\<close>, so the two thresholds are compared as real numbers.

  The first loop appends each card to one of four lists; the list \<open>must_include\<close>
  of the source is \<open>must_cards\<close> here.
\<close>

fun bucket_loop ::
  "(card \<Rightarrow> strategy_analysis \<Rightarrow> real) \<Rightarrow> strategy_analysis \<Rightarrow> card list \<Rightarrow>
   card list \<times> card list \<times> card list \<times> card list \<Rightarrow>
   card list \<times> card list \<times> card list \<times> card list" where
  "bucket_loop relevance strategy [] acc = acc"
| "bucket_loop relevance strategy (c # cs) (must_cards, core_cards, synergy_cards, support_cards) =
     (if name c \<in> set (must_include_cards strategy) then
        bucket_loop relevance strategy cs
          (must_cards @ [c], core_cards, synergy_cards, support_cards)
      else if is_power c then
        bucket_loop relevance strategy cs
          (must_cards, core_cards, synergy_cards, support_cards @ [c])
      else if relevance c strategy \<ge> 0.8 then
        bucket_loop relevance strategy cs
          (must_cards, core_cards @ [c], synergy_cards, support_cards)
      else if relevance c strategy \<ge> 0.5 then
        bucket_loop relevance strategy cs
          (must_cards, core_cards, synergy_cards @ [c], support_cards)
      else
        bucket_loop relevance strategy cs
          (must_cards, core_cards, synergy_cards, support_cards @ [c]))"

text \<open>The last loop keeps the first card of each name.\<close>

fun dedup_loop :: "card list \<Rightarrow> string set \<Rightarrow> card list \<Rightarrow> card list" where
  "dedup_loop [] seen final_pool = final_pool"
| "dedup_loop (c # cs) seen final_pool =
     (if name c \<notin> seen then dedup_loop cs (insert (name c) seen) (final_pool @ [c])
      else dedup_loop cs seen final_pool)"

text \<open>\<open>sorted(xs, key=lambda c: c.cost)\<close> is a stable sort, as \<^const>\<open>sort_key\<close> is.\<close>

definition organize_card_pool ::
  "(card \<Rightarrow> strategy_analysis \<Rightarrow> real) \<Rightarrow> card list \<Rightarrow> strategy_analysis \<Rightarrow> card list" where
  "organize_card_pool relevance cs strategy =
     (case bucket_loop relevance strategy cs ([], [], [], []) of
        (must_cards, core_cards, synergy_cards, support_cards) \<Rightarrow>
          (let organized = must_cards @ sort_key cost core_cards @
                           sort_key cost synergy_cards @ sort_key cost support_cards
           in dedup_loop organized {} []))"

section \<open>The spreadsheet client (src/data/sheets\_client.py)\<close>

text \<open>
  A row is a \<open>Dict[str, Any]\<close>. A cell of a row of \<open>get_all_records\<close> is a string
  or, for a cell that holds a number, an integer; the source converts cells with
  \<open>int(...)\<close> and \<open>str(...)\<close> for that reason. Cells with a float are not modelled.
\<close>

datatype cell = Str string | Num int

type_synonym row = "string \<rightharpoonup> cell"

text \<open>\<open>row.get(key, default)\<close>, and the truth value of a cell.\<close>

definition row_get :: "row \<Rightarrow> string \<Rightarrow> cell \<Rightarrow> cell" where
  "row_get r key dflt = (case r key of None \<Rightarrow> dflt | Some v \<Rightarrow> v)"

fun cell_truthy :: "cell \<Rightarrow> bool" where
  "cell_truthy (Str s) = (s \<noteq> [])"
| "cell_truthy (Num n) = (n \<noteq> 0)"

text \<open>
  \<open>str.strip\<close>, \<open>str.split\<close> without argument and \<open>str.join\<close>, on the ASCII white
  space.
\<close>

definition is_space :: "char \<Rightarrow> bool" where
  "is_space c \<longleftrightarrow>
     c \<in> set [CHR 0x20, CHR 0x09, CHR 0x0A, CHR 0x0B, CHR 0x0C, CHR 0x0D,
              CHR 0x1C, CHR 0x1D, CHR 0x1E, CHR 0x1F]"

definition strip :: "string \<Rightarrow> string" where
  "strip s = rev (dropWhile is_space (rev (dropWhile is_space s)))"

function py_split :: "string \<Rightarrow> string list" where
  "py_split s =
     (case dropWhile is_space s of
        [] \<Rightarrow> []
      | c # cs \<Rightarrow> (c # takeWhile (\<lambda>x. \<not> is_space x) cs)
                  # py_split (dropWhile (\<lambda>x. \<not> is_space x) cs))"
  by pat_completeness auto
termination
proof (relation "measure length", goal_cases)
  case 1
  show ?case by simp
next
  case (2 s c cs)
  have "length (dropWhile (\<lambda>x. \<not> is_space x) cs) \<le> length cs"
    by (rule length_dropWhile_le)
  moreover have "length (dropWhile is_space s) \<le> length s"
    by (rule length_dropWhile_le)
  ultimately show ?case using 2 by simp
qed

fun py_join :: "string \<Rightarrow> string list \<Rightarrow> string" where
  "py_join sep [] = []"
| "py_join sep [x] = x"
| "py_join sep (x # y # ys) = x @ sep @ py_join sep (y # ys)"

text \<open>
  The methods \<open>upper\<close> and \<open>strip\<close> exist on strings only: on an integer cell the
  attribute lookup raises \<open>AttributeError\<close>, which is \<open>None\<close> here.
\<close>

fun cell_upper :: "cell \<Rightarrow> string option" where
  "cell_upper (Str s) = Some (upper s)"
| "cell_upper (Num n) = None"

fun cell_strip :: "cell \<Rightarrow> string option" where
  "cell_strip (Str s) = Some (strip s)"
| "cell_strip (Num n) = None"

text \<open>
  \<open>int(x)\<close>: an integer is itself; a string may carry white space around it and a
  sign, and is a run of decimal digits with single underscores between digits. On an
  ASCII string \<open>int\<close> skips the six white space characters of C only, not the
  separators \<open>0x1C\<close> to \<open>0x1F\<close> that \<open>str.strip\<close> removes. \<open>None\<close> is the
  \<open>ValueError\<close>.
\<close>

definition is_c_space :: "char \<Rightarrow> bool" where
  "is_c_space c \<longleftrightarrow>
     c \<in> set [CHR 0x20, CHR 0x09, CHR 0x0A, CHR 0x0B, CHR 0x0C, CHR 0x0D]"

definition is_digit :: "char \<Rightarrow> bool" where
  "is_digit c \<longleftrightarrow> c \<in> set ''0123456789''"

definition digit_value :: "char \<Rightarrow> nat" where
  "digit_value c = length (takeWhile (\<lambda>d. d \<noteq> c) ''0123456789'')"

definition digits_value :: "string \<Rightarrow> nat" where
  "digits_value ds = foldl (\<lambda>acc c. 10 * acc + digit_value c) 0 ds"

fun digits_wellformed :: "string \<Rightarrow> bool" where
  "digits_wellformed [] = False"
| "digits_wellformed [c] = is_digit c"
| "digits_wellformed (c # d # ds) =
     (is_digit c \<and>
      (if d = CHR ''_'' then digits_wellformed ds else digits_wellformed (d # ds)))"

definition int_of_string :: "string \<Rightarrow> int option" where
  "int_of_string s =
     (let t = rev (dropWhile is_c_space (rev (dropWhile is_c_space s)));
          negative = (t \<noteq> [] \<and> hd t = CHR ''-'');
          digits = (if t \<noteq> [] \<and> (hd t = CHR ''-'' \<or> hd t = CHR ''+'') then tl t else t)
      in if digits_wellformed digits then
           (let v = int (digits_value (filter (\<lambda>c. c \<noteq> CHR ''_'') digits))
            in Some (if negative then - v else v))
         else None)"

fun py_int :: "cell \<Rightarrow> int option" where
  "py_int (Num n) = Some n"
| "py_int (Str s) = int_of_string s"

text \<open>
  \<open>str(x)\<close> and \<open>str.isdigit\<close>. Strings are bytes here, so \<open>isdigit\<close> knows the
  ASCII digits only, and \<open>strip\<close> and \<open>split\<close> above the ASCII white space only.
\<close>

fun string_of_nat :: "nat \<Rightarrow> string" where
  "string_of_nat n =
     (if n < 10 then [''0123456789'' ! n]
      else string_of_nat (n div 10) @ [''0123456789'' ! (n mod 10)])"

fun py_str :: "cell \<Rightarrow> string" where
  "py_str (Str s) = s"
| "py_str (Num n) = (if n < 0 then CHR ''-'' # string_of_nat (nat (- n)) else string_of_nat (nat n))"

definition isdigit :: "string \<Rightarrow> bool" where
  "isdigit s \<longleftrightarrow> s \<noteq> [] \<and> list_all is_digit s"

text \<open>
  The validator \<open>clean_html_from_card_text\<close> of \<open>Card\<close>, applied to a string. The
  pattern \<open><[^>]+>\<close> matches at a \<open><\<close> that is followed by at least one character
  other than \<open>>\<close> and then by \<open>>\<close>.
\<close>

function strip_tags :: "string \<Rightarrow> string" where
  "strip_tags [] = []"
| "strip_tags (c # cs) =
     (if c = CHR ''<'' \<and> takeWhile (\<lambda>x. x \<noteq> CHR ''>'') cs \<noteq> []
         \<and> dropWhile (\<lambda>x. x \<noteq> CHR ''>'') cs \<noteq> []
      then strip_tags (tl (dropWhile (\<lambda>x. x \<noteq> CHR ''>'') cs))
      else c # strip_tags cs)"
  by pat_completeness auto
termination
proof (relation "measure length", goal_cases)
  case 1
  show ?case by simp
next
  case (2 c cs)
  have "length (dropWhile (\<lambda>x. x \<noteq> CHR ''>'') cs) \<le> length cs"
    by (rule length_dropWhile_le)
  then show ?case by simp
next
  case (3 c cs)
  show ?case by simp
qed

definition clean_html_from_card_text :: "string \<Rightarrow> string" where
  "clean_html_from_card_text v =
     (if v = [] then []
      else (let cleaned = strip_tags v in py_join '' '' (py_split cleaned)))"

text \<open>
  \<open>_parse_card_row\<close>. The two guards come before the \<open>try\<close>, so an exception of the
  first guard leaves the function. Inside the \<open>try\<close> every exception is caught and
  gives \<open>None\<close>: \<open>card_of_row\<close> is the body of the \<open>try\<close>, \<open>None\<close> when it raises.
\<close>

definition optional_int :: "row \<Rightarrow> string \<Rightarrow> int option option" where
  "optional_int r key =
     (case r key of
        None \<Rightarrow> Some None
      | Some v \<Rightarrow>
          if cell_truthy v \<and> isdigit (py_str v) then map_option Some (py_int v)
          else Some None)"

definition card_of_row :: "row \<Rightarrow> card option" where
  "card_of_row r =
     (case r ''Name'' of
        None \<Rightarrow> None
      | Some name_cell \<Rightarrow>
     (case cell_strip name_cell of None \<Rightarrow> None | Some name_v \<Rightarrow>
     (case py_int (row_get r ''Cost'' (Num 0)) of None \<Rightarrow> None | Some cost_v \<Rightarrow>
     (case cell_strip (row_get r ''Type'' (Str ''Unknown'')) of None \<Rightarrow> None | Some type_v \<Rightarrow>
     (case cell_strip (row_get r ''CardText'' (Str [])) of None \<Rightarrow> None | Some text_v \<Rightarrow>
     (case cell_strip (row_get r ''Rarity'' (Str ''Common'')) of None \<Rightarrow> None | Some rarity_v \<Rightarrow>
     (case cell_strip (row_get r ''Influence'' (Str [])) of None \<Rightarrow> None | Some influence_v \<Rightarrow>
     (let set_number_v = strip (py_str (row_get r ''SetNumber'' (Str [])));
          eternal_id_v = strip (py_str (row_get r ''EternalID'' (Str [])))
      in
     (case optional_int r ''Attack'' of None \<Rightarrow> None | Some attack_v \<Rightarrow>
     (case optional_int r ''Health'' of None \<Rightarrow> None | Some health_v \<Rightarrow>
     (case cell_strip (row_get r ''ImageUrl'' (Str [])) of None \<Rightarrow> None | Some url \<Rightarrow>
        Some \<lparr>name = name_v, cost = cost_v, influence = influence_v, card_type = type_v,
              card_text = clean_html_from_card_text text_v, rarity = rarity_v,
              deck_buildable = True, set_number = set_number_v,
              attack = attack_v, health = health_v, eternal_id = Some eternal_id_v,
              image_url = (if url = [] then None else Some url),
              unit_types = [], set_name = None\<rparr>)))))))))))"

definition parse_card_row :: "row \<Rightarrow> py_error + card option" where
  "parse_card_row r =
     (case cell_upper (row_get r ''DeckBuildable'' (Str [])) of
        None \<Rightarrow> Inl AttributeError
      | Some flag \<Rightarrow>
          if flag \<noteq> ''TRUE'' then Inr None
          else if \<not> (case r ''Name'' of None \<Rightarrow> False | Some v \<Rightarrow> cell_truthy v) then Inr None
          else Inr (card_of_row r))"

text \<open>
  The cache of the client. \<open>_load_all_cards\<close> appends to the cache row by row, so the
  cards appended before an exception stay in it; \<open>fetched\<close> is the list of rows the
  sheet gives, or \<open>None\<close> when connecting or reading fails.
\<close>

record sheets_client =
  cards_cache :: "card list"
  cache_loaded :: bool

definition new_client :: sheets_client where
  "new_client = \<lparr>cards_cache = [], cache_loaded = False\<rparr>"

fun load_loop :: "row list \<Rightarrow> card list \<Rightarrow> card list \<times> bool" where
  "load_loop [] cache = (cache, True)"
| "load_loop (r # rs) cache =
     (case parse_card_row r of
        Inl err \<Rightarrow> (cache, False)
      | Inr None \<Rightarrow> load_loop rs cache
      | Inr (Some c) \<Rightarrow> load_loop rs (cache @ [c]))"

definition load_all_cards :: "row list option \<Rightarrow> sheets_client \<Rightarrow> sheets_client \<times> bool" where
  "load_all_cards fetched client =
     (case fetched of
        None \<Rightarrow> (client, False)
      | Some all_records \<Rightarrow>
          (case load_loop all_records (cards_cache client) of
             (cache, True) \<Rightarrow> (client\<lparr>cards_cache := cache, cache_loaded := True\<rparr>, True)
           | (cache, False) \<Rightarrow> (client\<lparr>cards_cache := cache\<rparr>, False)))"

definition get_all_cards :: "row list option \<Rightarrow> sheets_client \<Rightarrow> sheets_client \<times> card list" where
  "get_all_cards fetched client =
     (let client' = (if \<not> cache_loaded client then fst (load_all_cards fetched client)
                     else client)
      in (client', cards_cache client'))"

section \<open>Notions used in the statements\<close>

text \<open>The cost of a card lies within the bounds of the filters that are set.\<close>

definition cost_in_range :: "search_filters \<Rightarrow> card \<Rightarrow> bool" where
  "cost_in_range filters c =
     ((case min_cost filters of None \<Rightarrow> True | Some lo \<Rightarrow> lo \<le> cost c) \<and>
      (case max_cost filters of None \<Rightarrow> True | Some hi \<Rightarrow> cost c \<le> hi))"

text \<open>
  The faction symbols that occur in an influence string, and the symbols that
  \<open>FACTION_SYMBOLS\<close> gives to the factions of a list.
\<close>

definition faction_symbols_of :: "string \<Rightarrow> string set" where
  "faction_symbols_of infl =
     {s \<in> {''{F}'', ''{T}'', ''{J}'', ''{P}'', ''{S}''}. sublist s infl}"

definition symbols_of_factions :: "string list \<Rightarrow> string set" where
  "symbols_of_factions factions =
     {s. \<exists>faction \<in> set factions. map_of FACTION_SYMBOLS faction = Some s}"

text \<open>
  The bucket of a card: 0 for a card named in \<open>must_include_cards\<close>, 1 for core,
  2 for synergy, 3 for support.
\<close>

definition bucket_of ::
  "(card \<Rightarrow> strategy_analysis \<Rightarrow> real) \<Rightarrow> strategy_analysis \<Rightarrow> card \<Rightarrow> nat" where
  "bucket_of relevance strategy c =
     (if name c \<in> set (must_include_cards strategy) then 0
      else if is_power c then 3
      else if relevance c strategy \<ge> 0.8 then 1
      else if relevance c strategy \<ge> 0.5 then 2
      else 3)"

text \<open>The four buckets in their order, the last three sorted by cost.\<close>

definition organized_list ::
  "(card \<Rightarrow> strategy_analysis \<Rightarrow> real) \<Rightarrow> card list \<Rightarrow> strategy_analysis \<Rightarrow> card list" where
  "organized_list rel cs s =
     filter (\<lambda>x. bucket_of rel s x = 0) cs @
     sort_key cost (filter (\<lambda>x. bucket_of rel s x = 1) cs) @
     sort_key cost (filter (\<lambda>x. bucket_of rel s x = 2) cs) @
     sort_key cost (filter (\<lambda>x. bucket_of rel s x = 3) cs)"

section \<open>Example cards\<close>

definition fire_sigil :: card where
  "fire_sigil = \<lparr>name = ''Fire Sigil'', cost = 0, influence = ''{F}'', card_type = ''Power'',
     card_text = [], rarity = ''Common'', deck_buildable = True, set_number = ''1'',
     attack = None, health = None, eternal_id = None, image_url = None,
     unit_types = [], set_name = None\<rparr>"

definition merchant :: card where
  "merchant = \<lparr>name = ''Ixtun Merchant'', cost = 3, influence = ''{F}'', card_type = ''Unit'',
     card_text = ''Summon: You may swap a card from your hand with a card In Your Market.'',
     rarity = ''Uncommon'', deck_buildable = True, set_number = ''4'',
     attack = Some 2, health = Some 1, eternal_id = None, image_url = None,
     unit_types = [''Oni''], set_name = None\<rparr>"

definition torch :: card where
  "torch = \<lparr>name = ''Torch'', cost = 1, influence = ''{F}'', card_type = ''Spell'',
     card_text = ''Deal 3 damage.'', rarity = ''Common'', deck_buildable = True,
     set_number = ''1'', attack = None, health = None, eternal_id = None, image_url = None,
     unit_types = [], set_name = None\<rparr>"

definition permafrost :: card where
  "permafrost = \<lparr>name = ''Permafrost'', cost = 1, influence = ''{P}'', card_type = ''Curse'',
     card_text = ''The cursed unit is stunned.'', rarity = ''Common'', deck_buildable = True,
     set_number = ''1'', attack = None, health = None, eternal_id = None, image_url = None,
     unit_types = [], set_name = None\<rparr>"

definition harsh_rule :: card where
  "harsh_rule = \<lparr>name = ''Harsh Rule'', cost = 5, influence = ''{J}{J}'', card_type = ''Spell'',
     card_text = ''Kill all units.'', rarity = ''Rare'', deck_buildable = True,
     set_number = ''1'', attack = None, health = None, eternal_id = None, image_url = None,
     unit_types = [], set_name = None\<rparr>"

definition seek_power :: card where
  "seek_power = \<lparr>name = ''Seek Power'', cost = 1, influence = [], card_type = ''Spell'',
     card_text = ''Draw a Sigil of your choice from your deck.'', rarity = ''Common'',
     deck_buildable = True, set_number = ''1'', attack = None, health = None,
     eternal_id = None, image_url = None, unit_types = [], set_name = None\<rparr>"

definition praxis_banner :: card where
  "praxis_banner = \<lparr>name = ''Praxis Banner'', cost = 0, influence = ''{F}{T}'',
     card_type = ''Power'', card_text = [], rarity = ''Uncommon'', deck_buildable = True,
     set_number = ''2'', attack = None, health = None, eternal_id = None, image_url = None,
     unit_types = [], set_name = None\<rparr>"

text \<open>An engine without the vector store, and one whose store answers with two hits.\<close>

definition offline_engine :: search_engine where
  "offline_engine = \<lparr>chromadb_available = False, all_cards = [torch, permafrost, harsh_rule],
     vector_query = (\<lambda>q n w. Inl StoreError)\<rparr>"

definition hit :: "string \<Rightarrow> metadata" where
  "hit card_name = Map.empty(''name'' \<mapsto> card_name)"

definition online_engine :: search_engine where
  "online_engine = \<lparr>chromadb_available = True, all_cards = [torch, permafrost, harsh_rule],
     vector_query = (\<lambda>q n w. Inr [hit ''Harsh Rule'', hit ''Torch''])\<rparr>"


definition include_harsh_rule :: search_filters where
  "include_harsh_rule = default_filters\<lparr>must_include := Some [''Harsh Rule'']\<rparr>"



definition expensive_with_torch :: search_filters where
  "expensive_with_torch =
     default_filters\<lparr>min_cost := Some 5, must_include := Some [''Torch'']\<rparr>"

definition fire_time_mono :: search_filters where
  "fire_time_mono =
     default_filters\<lparr>allowed_factions := Some [''Fire'', ''Time''],
                      max_factions_per_card := Some 1\<rparr>"

definition fire_negative_limit :: search_filters where
  "fire_negative_limit =
     default_filters\<lparr>allowed_factions := Some [''Fire''],
                      max_factions_per_card := Some (- 1)\<rparr>"

text \<open>A strategy that names one card, and a score that depends on the cost only.\<close>

definition burn_strategy :: strategy_analysis where
  "burn_strategy = \<lparr>archetype = ''aggro'', speed = ''fast'', primary_faction = Some ''Fire'',
     secondary_factions = [], key_mechanics = [''burn''], tribal_focus = None,
     must_include_cards = [''Harsh Rule''], market_preference = True,
     preferred_win_conditions = [], confidence_score = 0.8, interpretation_notes = []\<rparr>"

definition cost_score :: "card \<Rightarrow> strategy_analysis \<Rightarrow> real" where
  "cost_score c strategy = (if cost c \<le> 1 then 0.9 else 0.6)"

text \<open>A row of the sheet for Torch, and a row whose \<open>DeckBuildable\<close> cell holds a number.\<close>

definition torch_row :: row where
  "torch_row = [''DeckBuildable'' \<mapsto> Str ''True'', ''Name'' \<mapsto> Str ''Torch'',
     ''Cost'' \<mapsto> Num 1, ''Type'' \<mapsto> Str ''Spell'', ''CardText'' \<mapsto> Str ''Deal 3 damage.'',
     ''Rarity'' \<mapsto> Str ''Common'', ''Influence'' \<mapsto> Str ''{F}'', ''SetNumber'' \<mapsto> Num 1]"

definition numeric_flag_row :: row where
  "numeric_flag_row = [''DeckBuildable'' \<mapsto> Num 1, ''Name'' \<mapsto> Str ''Permafrost'']"

section \<open>The derived flags of a card\<close>

lemma sublist_sigil_fire: "sublist ''sigil'' ''fire sigil''"
  by code_simp

text \<open>
  Claim C7. \<open>is_sigil\<close> holds exactly when the type of the card lowercases to
  \<open>power\<close> and the lowercased name contains \<open>sigil\<close>; every Sigil is a power card.
\<close>

theorem is_sigil_iff:
  "(is_sigil c \<longleftrightarrow>
      lower (card_type c) = ''power'' \<and> (\<exists>ps ss. lower (name c) = ps @ ''sigil'' @ ss))
   \<and> (is_sigil c \<longrightarrow> is_power c)"
  by (simp add: is_sigil_def is_power_def sublist_def)

theorem is_sigil_iff_witness:
  "is_sigil fire_sigil \<and> is_power fire_sigil
   \<and> lower (card_type fire_sigil) = ''power''
   \<and> lower (name fire_sigil) = ''fire '' @ ''sigil'' @ []"
proof -
  have low: "lower (card_type fire_sigil) = ''power''" "lower (name fire_sigil) = ''fire sigil''"
    by (simp_all add: fire_sigil_def lower_def lower_char_def)
  have "\<exists>ps ss. lower (name fire_sigil) = ps @ ''sigil'' @ ss"
    using sublist_sigil_fire by (simp only: low sublist_def)
  with low(1) have "is_sigil fire_sigil" "is_power fire_sigil"
    using is_sigil_iff [of fire_sigil] by blast+
  with low show ?thesis by simp
qed

text \<open>
  Claim C8. \<open>can_access_market\<close> is true exactly when the text of the card is not
  empty and its lowercased text contains \<open>your market\<close>, \<open>from your market\<close> or
  \<open>in your market\<close>; a card with an empty text never grants market access.
\<close>

theorem can_access_market_iff:
  "(can_access_market c \<longleftrightarrow>
      card_text c \<noteq> [] \<and>
      ((\<exists>ps ss. lower (card_text c) = ps @ ''your market'' @ ss) \<or>
       (\<exists>ps ss. lower (card_text c) = ps @ ''from your market'' @ ss) \<or>
       (\<exists>ps ss. lower (card_text c) = ps @ ''in your market'' @ ss)))
   \<and> (card_text c = [] \<longrightarrow> \<not> can_access_market c)"
  by (auto simp add: can_access_market_def market_patterns_def sublist_def Let_def)

theorem can_access_market_iff_witness:
  "can_access_market merchant \<and> card_text merchant \<noteq> []
   \<and> \<not> can_access_market fire_sigil \<and> card_text fire_sigil = []"
proof -
  have t: "card_text merchant \<noteq> []" "card_text fire_sigil = []"
    by (simp_all add: merchant_def fire_sigil_def)
  have "sublist ''in your market'' (lower (card_text merchant))"
    by code_simp
  then have "\<exists>ps ss. lower (card_text merchant) = ps @ ''in your market'' @ ss"
    by (simp only: sublist_def)
  with t show ?thesis
    using can_access_market_iff [of merchant] can_access_market_iff [of fire_sigil] by blast
qed

section \<open>The refinement by the language model\<close>

text \<open>
  Claim C5. \<open>_parse_ai_response\<close> returns the initial, pattern-based analysis
  unchanged, whatever the response of the model is.
\<close>

theorem parse_ai_response_identity:
  "parse_ai_response response initial = initial"
  by (simp add: parse_ai_response_def)

section \<open>The search engine: auxiliary facts\<close>

lemma fold_upd_Some:
  "fold (\<lambda>c m. m(lower (name c) \<mapsto> c)) cs m0 k = Some c \<Longrightarrow>
     (c \<in> set cs \<and> lower (name c) = k) \<or> m0 k = Some c"
  by (induction cs arbitrary: m0) (fastforce split: if_splits)+

lemma cards_by_name_Some:
  "cards_by_name e k = Some c \<Longrightarrow> c \<in> set (all_cards e) \<and> lower (name c) = k"
  using fold_upd_Some [of "all_cards e" Map.empty k c] by (simp add: cards_by_name_def)



lemma ensure_loop_origin:
  "c \<in> set (ensure_loop e names req results) \<Longrightarrow>
     c \<in> set results \<or> (\<exists>r \<in> set req. cards_by_name e (lower r) = Some c)"
proof (induction req arbitrary: results)
  case Nil
  then show ?case by simp
next
  case (Cons a req)
  show ?case
  proof (cases "cards_by_name e (lower a)")
    case None
    with Cons.prems have "c \<in> set (ensure_loop e names req results)" by (simp add: Let_def)
    from Cons.IH [OF this] show ?thesis by auto
  next
    case (Some d)
    show ?thesis
    proof (cases "lower a \<in> names")
      case True
      with Some Cons.prems have "c \<in> set (ensure_loop e names req results)"
        by (simp add: Let_def)
      from Cons.IH [OF this] show ?thesis by auto
    next
      case False
      with Some Cons.prems have "c \<in> set (ensure_loop e names req (d # results))"
        by (simp add: Let_def)
      from Cons.IH [OF this] Some show ?thesis by auto
    qed
  qed
qed


lemma py_slice_to_subset: "set (py_slice_to xs n) \<subseteq> set xs"
  by (auto simp: py_slice_to_def dest: in_set_takeD)

lemma py_slice_to_length: "length (py_slice_to xs n) \<le> length xs"
  by (simp add: py_slice_to_def) arith

lemma py_slice_to_bound: "0 \<le> n \<Longrightarrow> int (length (py_slice_to xs n)) \<le> n"
  by (simp add: py_slice_to_def)


lemma filter_by_factions_subset: "set (filter_by_factions cs f) \<subseteq> set cs"
  by (auto simp: filter_by_factions_def Let_def)

lemma apply_post_filters_subset: "set (apply_post_filters cs f) \<subseteq> set cs"
  using filter_by_factions_subset
  by (fastforce simp: apply_post_filters_def Let_def split: option.splits if_splits)

lemma filter_by_factions_in: "c \<in> set (filter_by_factions cs f) \<Longrightarrow> c \<in> set cs"
  using filter_by_factions_subset by blast

lemma apply_post_filters_min:
  "c \<in> set (apply_post_filters cs f) \<Longrightarrow> min_cost f = Some lo \<Longrightarrow> lo \<le> cost c"
  by (auto simp: apply_post_filters_def Let_def split: option.splits if_splits
      dest!: filter_by_factions_in)

lemma apply_post_filters_max:
  "c \<in> set (apply_post_filters cs f) \<Longrightarrow> max_cost f = Some hi \<Longrightarrow> cost c \<le> hi"
  by (auto simp: apply_post_filters_def Let_def split: option.splits if_splits
      dest!: filter_by_factions_in)

lemma apply_post_filters_cost:
  assumes "c \<in> set (apply_post_filters cs f)"
  shows "cost_in_range f c"
  using apply_post_filters_min [OF assms] apply_post_filters_max [OF assms]
  by (simp add: cost_in_range_def split: option.splits)

lemma search_path_cost:
  assumes "search_path e q f n = Inr (rs, i, u)" and "c \<in> set rs"
  shows "cost_in_range f c"
proof -
  have "\<exists>cs. c \<in> set (apply_post_filters cs f)"
    using assms py_slice_to_subset
    by (fastforce simp: search_path_def browse_with_filters_def simple_search_with_filters_def
        semantic_search_with_filters_def Let_def split: if_splits sum.splits)
  then show ?thesis using apply_post_filters_cost by blast
qed

lemma search_Inr:
  assumes "search e q fa n = Inr r"
  obtains rs i u where
    "search_path e q (filters_or_default fa) n = Inr (rs, i, u)"
    "cards r = py_slice_to (include_and_exclude e (filters_or_default fa) rs) n"
    "total_found r = length (include_and_exclude e (filters_or_default fa) rs)"
    "query_interpretation r = i" "used_chromadb r = u"
  using assms by (auto simp: search_def Let_def split: sum.splits)



lemma ensure_must_include_origin:
  assumes "c \<in> set (ensure_must_include e rs required)"
  shows "c \<in> set rs \<or> lower (name c) \<in> set (map lower required)"
  using ensure_loop_origin [of c e "result_names rs" required rs] assms cards_by_name_Some
  by (fastforce simp: ensure_must_include_def)



lemma include_and_exclude_origin:
  assumes "c \<in> set (include_and_exclude e f rs)"
  shows "c \<in> set rs \<or> lower (name c) \<in> set (map lower (opt_list (must_include f)))"
proof -
  have "c \<in> set (if truthy (must_include f)
                 then ensure_must_include e rs (opt_list (must_include f)) else rs)"
    using assms by (auto simp: include_and_exclude_def Let_def apply_exclusions_def split: if_splits)
  then show ?thesis using ensure_must_include_origin by (auto split: if_splits)
qed

lemma fold_insert_if:
  "fold (\<lambda>x acc. if P x then insert x acc else acc) xs A = A \<union> {x \<in> set xs. P x}"
  by (induction xs arbitrary: A) auto

lemma card_factions_eq: "card_factions c = faction_symbols_of (influence c)"
  by (auto simp: card_factions_def fold_insert_if faction_symbols_of_def FACTION_SYMBOLS_def)

lemma fold_symbols:
  "fold (\<lambda>faction acc.
           case map_of FACTION_SYMBOLS faction of
             None \<Rightarrow> acc
           | Some symbol \<Rightarrow> if symbol \<noteq> [] then insert symbol acc else acc) factions A =
   A \<union> {s. \<exists>faction \<in> set factions. map_of FACTION_SYMBOLS faction = Some s \<and> s \<noteq> []}"
  by (induction factions arbitrary: A) (auto split: option.splits)

lemma faction_symbol_nonempty: "map_of FACTION_SYMBOLS faction = Some s \<Longrightarrow> s \<noteq> []"
  by (auto simp: FACTION_SYMBOLS_def split: if_splits)

lemma allowed_symbols_eq: "allowed_symbols factions = symbols_of_factions factions"
  using faction_symbol_nonempty
  by (auto simp: allowed_symbols_def fold_symbols symbols_of_factions_def)



lemma include_and_exclude_browse_length:
  assumes "\<not> truthy (must_include f)"
  shows "length (include_and_exclude e f rs) \<le> length rs"
  using assms by (simp add: include_and_exclude_def Let_def apply_exclusions_def)

lemma filter_by_factions_keeps:
  assumes "truthy (allowed_factions f)"
  shows "filter_by_factions cs f =
           filter (\<lambda>c. faction_symbols_of (influence c)
                          \<subseteq> symbols_of_factions (opt_list (allowed_factions f)) \<and>
                        (\<forall>m. max_factions_per_card f = Some m \<and> m \<noteq> 0 \<longrightarrow>
                             int (card (faction_symbols_of (influence c))) \<le> m)) cs"
  using assms
  by (auto simp: filter_by_factions_def Let_def card_factions_eq allowed_symbols_eq
      split: option.splits intro!: filter_cong)

text \<open>
  \<open>search\<close> returns a result on the browse path and on the substring path; it raises
  exactly when the vector search does.
\<close>

lemma search_returns:
  assumes "\<not> (chromadb_available e \<and> q \<noteq> [])"
  shows "\<exists>r. search e q fa n = Inr r"
  using assms by (auto simp: search_def search_path_def Let_def)

lemma search_raises_iff:
  "(\<exists>err. search e q fa n = Inl err) \<longleftrightarrow>
     (q \<noteq> [] \<and> chromadb_available e \<and>
      (\<exists>err. semantic_search_with_filters e q (filters_or_default fa) n = Inl err))"
  by (auto simp: search_def search_path_def Let_def split: sum.splits)

section \<open>The search engine: the claims\<close>




text \<open>
  The statement above says nothing of a required card that the search found itself at
  a position behind the limit: it is not moved to the front, and the limit cuts it off.
\<close>

lemma search_found_card_cut_off:
  "search offline_engine [] (Some include_harsh_rule) 1 =
     Inr \<lparr>cards = [torch], total_found = 3, query = [],
          query_interpretation = simple_label [],
          filters_applied = Some include_harsh_rule, used_chromadb = False\<rparr>
   \<and> search_path offline_engine [] include_harsh_rule 1 =
     Inr ([torch, permafrost, harsh_rule], simple_label [], False)
   \<and> must_include include_harsh_rule = Some [''Harsh Rule'']
   \<and> lower ''Harsh Rule'' \<notin> result_names [torch]"
  by code_simp

text \<open>
  Claim C2, as the code has it. An empty query with no required card takes the browse
  path; a query that is not empty takes the vector search when the store is available
  and the substring search when it is not; an empty query with required cards takes the
  substring search. The interpretation string and the flag of the result say which.
\<close>

theorem search_dispatch:
  "(q = [] \<and> \<not> truthy (must_include (filters_or_default fa)) \<longrightarrow>
      search_path e q (filters_or_default fa) n =
        Inr (browse_with_filters e (filters_or_default fa) n, browsing_label, False))
   \<and> (q \<noteq> [] \<and> chromadb_available e \<longrightarrow>
      search_path e q (filters_or_default fa) n =
        (case semantic_search_with_filters e q (filters_or_default fa) n of
           Inl err \<Rightarrow> Inl err
         | Inr rs \<Rightarrow> Inr (rs, semantic_label q, True)))
   \<and> ((q \<noteq> [] \<and> \<not> chromadb_available e) \<or>
       (q = [] \<and> truthy (must_include (filters_or_default fa))) \<longrightarrow>
      search_path e q (filters_or_default fa) n =
        Inr (simple_search_with_filters e q (filters_or_default fa) n, simple_label q, False))
   \<and> (\<forall>r. search e q fa n = Inr r \<longrightarrow>
        query_interpretation r =
          (if q = [] \<and> \<not> truthy (must_include (filters_or_default fa)) then browsing_label
           else if q \<noteq> [] \<and> chromadb_available e then semantic_label q
           else simple_label q) \<and>
        used_chromadb r = (q \<noteq> [] \<and> chromadb_available e))"
proof (intro conjI allI impI)
  fix r assume "search e q fa n = Inr r"
  then obtain rs i u where
    p: "search_path e q (filters_or_default fa) n = Inr (rs, i, u)" and
    r: "query_interpretation r = i" "used_chromadb r = u"
    by (rule search_Inr)
  from p r show "query_interpretation r =
          (if q = [] \<and> \<not> truthy (must_include (filters_or_default fa)) then browsing_label
           else if q \<noteq> [] \<and> chromadb_available e then semantic_label q
           else simple_label q)"
    by (auto simp: search_path_def split: if_splits sum.splits)
  from p r show "used_chromadb r = (q \<noteq> [] \<and> chromadb_available e)"
    by (auto simp: search_path_def split: if_splits sum.splits)
qed (auto simp: search_path_def)

theorem search_dispatch_witness:
  "search_path offline_engine [] (filters_or_default None) 10 =
     Inr (browse_with_filters offline_engine (filters_or_default None) 10, browsing_label, False)
   \<and> search_path online_engine ''board wipe'' (filters_or_default None) 2 =
     Inr ([harsh_rule, torch], semantic_label ''board wipe'', True)
   \<and> search_path offline_engine ''rule'' (filters_or_default None) 10 =
     Inr (simple_search_with_filters offline_engine ''rule'' (filters_or_default None) 10,
          simple_label ''rule'', False)
   \<and> search_path offline_engine [] (filters_or_default (Some include_harsh_rule)) 1 =
     Inr (simple_search_with_filters offline_engine []
            (filters_or_default (Some include_harsh_rule)) 1, simple_label [], False)
   \<and> query_interpretation
       \<lparr>cards = [harsh_rule, torch], total_found = 2, query = ''board wipe'',
        query_interpretation = semantic_label ''board wipe'',
        filters_applied = Some default_filters, used_chromadb = True\<rparr> =
     semantic_label ''board wipe''"
proof -
  have a: "\<not> truthy (must_include (filters_or_default None))"
    "truthy (must_include (filters_or_default (Some include_harsh_rule)))"
    "chromadb_available online_engine" "\<not> chromadb_available offline_engine"
    by code_simp+
  have s: "semantic_search_with_filters online_engine ''board wipe'' (filters_or_default None) 2 =
     Inr [harsh_rule, torch]"
    by code_simp
  have run: "search online_engine ''board wipe'' None 2 =
     Inr \<lparr>cards = [harsh_rule, torch], total_found = 2, query = ''board wipe'',
        query_interpretation = semantic_label ''board wipe'',
        filters_applied = Some default_filters, used_chromadb = True\<rparr>"
    by code_simp
  show ?thesis
    using search_dispatch [of "[]" None offline_engine 10]
      search_dispatch [of "''board wipe''" None online_engine 2]
      search_dispatch [of "''rule''" None offline_engine 10]
      search_dispatch [of "[]" "Some include_harsh_rule" offline_engine 1]
      a s run
    by simp
qed

text \<open>An empty query with a required card does not browse: the substring search finds three cards, the browse path would stop at the limit.\<close>

theorem search_dispatch_counterexample:
  "search offline_engine [] (Some include_harsh_rule) 1 =
     Inr \<lparr>cards = [torch], total_found = 3, query = [],
          query_interpretation = simple_label [],
          filters_applied = Some include_harsh_rule, used_chromadb = False\<rparr>
   \<and> simple_label [] \<noteq> browsing_label
   \<and> length (browse_with_filters offline_engine include_harsh_rule 1) = 1
   \<and> length (simple_search_with_filters offline_engine [] include_harsh_rule 1) = 3"
  by code_simp

text \<open>
  Claim C3, as the code has it. Every returned card has a cost within the bounds that
  are set, or its name is, case-insensitively, a name of \<open>must_include\<close>: the required
  cards are inserted after the post-filters.
\<close>

theorem search_cost_range:
  assumes "search e q fa n = Inr r"
  shows "\<forall>c \<in> set (cards r).
           cost_in_range (filters_or_default fa) c \<or>
           lower (name c) \<in> set (map lower (opt_list (must_include (filters_or_default fa))))"
proof
  fix c assume "c \<in> set (cards r)"
  from assms obtain rs i u where
    p: "search_path e q (filters_or_default fa) n = Inr (rs, i, u)" and
    c: "cards r = py_slice_to (include_and_exclude e (filters_or_default fa) rs) n"
    by (rule search_Inr)
  from \<open>c \<in> set (cards r)\<close> c have "c \<in> set (include_and_exclude e (filters_or_default fa) rs)"
    using py_slice_to_subset by fastforce
  then show "cost_in_range (filters_or_default fa) c \<or>
           lower (name c) \<in> set (map lower (opt_list (must_include (filters_or_default fa))))"
    using include_and_exclude_origin search_path_cost [OF p] by blast
qed

theorem search_cost_range_witness:
  "search offline_engine ''rule'' (Some expensive_with_torch) 10 =
     Inr \<lparr>cards = [torch, harsh_rule], total_found = 2, query = ''rule'',
          query_interpretation = simple_label ''rule'',
          filters_applied = Some expensive_with_torch, used_chromadb = False\<rparr>
   \<and> cost_in_range expensive_with_torch harsh_rule
   \<and> \<not> cost_in_range expensive_with_torch torch
   \<and> lower (name torch) \<in> set (map lower [''Torch''])"
proof -
  have run: "search offline_engine ''rule'' (Some expensive_with_torch) 10 =
     Inr \<lparr>cards = [torch, harsh_rule], total_found = 2, query = ''rule'',
          query_interpretation = simple_label ''rule'',
          filters_applied = Some expensive_with_torch, used_chromadb = False\<rparr>"
    by code_simp
  have f: "filters_or_default (Some expensive_with_torch) = expensive_with_torch"
    "opt_list (must_include expensive_with_torch) = [''Torch'']"
    by code_simp+
  have n: "\<not> cost_in_range expensive_with_torch torch"
    "lower (name harsh_rule) \<notin> set (map lower [''Torch''])"
    by code_simp+
  from search_cost_range [OF run] n show ?thesis
    by (simp add: run f)
qed

text \<open>A required card below the minimal cost is returned.\<close>

theorem search_cost_range_counterexample:
  "search offline_engine ''rule'' (Some expensive_with_torch) 10 =
     Inr \<lparr>cards = [torch, harsh_rule], total_found = 2, query = ''rule'',
          query_interpretation = simple_label ''rule'',
          filters_applied = Some expensive_with_torch, used_chromadb = False\<rparr>
   \<and> min_cost expensive_with_torch = Some 5
   \<and> cost torch = 1"
  by code_simp

text \<open>
  For a limit \<open>n_results \<ge> 0\<close> at most \<open>n_results\<close> cards are returned, and
  \<open>total_found\<close> is at least their number.
\<close>

lemma search_limit:
  assumes "search e q fa n = Inr r" and "0 \<le> n"
  shows "int (length (cards r)) \<le> n \<and> length (cards r) \<le> total_found r"
proof -
  from assms(1) obtain rs i u where
    c: "cards r = py_slice_to (include_and_exclude e (filters_or_default fa) rs) n" and
    t: "total_found r = length (include_and_exclude e (filters_or_default fa) rs)"
    by (rule search_Inr)
  with assms(2) show ?thesis by (simp add: py_slice_to_bound py_slice_to_length)
qed

text \<open>
  On the vector path and on the substring path \<open>total_found\<close> counts the cards before
  any cut. On the browse path \<open>_browse_with_filters\<close> has cut the list already, so
  \<open>total_found\<close> is never more than the limit.
\<close>

lemma search_total_found_uncut:
  assumes "search e q fa n = Inr r" and "q \<noteq> [] \<or> truthy (must_include (filters_or_default fa))"
    and "search_path e q (filters_or_default fa) n = Inr (found, i, u)"
  shows "total_found r = length (include_and_exclude e (filters_or_default fa) found) \<and>
         (\<not> chromadb_available e \<or> q = [] \<longrightarrow>
            found = simple_search_with_filters e q (filters_or_default fa) n)"
proof -
  from assms(1) obtain rs i' u' where
    p: "search_path e q (filters_or_default fa) n = Inr (rs, i', u')" and
    t: "total_found r = length (include_and_exclude e (filters_or_default fa) rs)"
    by (rule search_Inr)
  from p assms(3) have "rs = found" by simp
  with t assms(2,3) show ?thesis
    by (auto simp: search_path_def split: if_splits)
qed

lemma search_total_found_browse:
  assumes "search e [] fa n = Inr r" and "\<not> truthy (must_include (filters_or_default fa))"
    and "0 \<le> n"
  shows "int (total_found r) \<le> n"
proof -
  from assms(1) obtain rs i u where
    p: "search_path e [] (filters_or_default fa) n = Inr (rs, i, u)" and
    t: "total_found r = length (include_and_exclude e (filters_or_default fa) rs)"
    by (rule search_Inr)
  from p assms(2) have "rs = browse_with_filters e (filters_or_default fa) n"
    by (simp add: search_path_def)
  then have "int (length rs) \<le> n"
    using assms(3) by (simp add: browse_with_filters_def py_slice_to_bound)
  moreover have "length (include_and_exclude e (filters_or_default fa) rs) \<le> length rs"
    using assms(2) by (rule include_and_exclude_browse_length)
  ultimately show ?thesis using t by linarith
qed


text \<open>
  Claim C4. With a list of allowed factions that is not empty and a limit
  \<open>max_factions_per_card\<close> that is unset or not negative (the field is documented as
  1 to 5), \<open>_filter_by_factions\<close> keeps exactly the cards whose faction symbols are
  symbols of allowed factions and, for a limit that is set and not zero, are at most
  that many; a card without faction symbols always passes.
\<close>

theorem filter_by_factions_spec:
  assumes "truthy (allowed_factions f)"
    and "\<forall>m. max_factions_per_card f = Some m \<longrightarrow> 0 \<le> m"
  shows "filter_by_factions cs f =
           filter (\<lambda>c. faction_symbols_of (influence c)
                          \<subseteq> symbols_of_factions (opt_list (allowed_factions f)) \<and>
                        (\<forall>m. max_factions_per_card f = Some m \<and> m \<noteq> 0 \<longrightarrow>
                             int (card (faction_symbols_of (influence c))) \<le> m)) cs
       \<and> (\<forall>c \<in> set cs. faction_symbols_of (influence c) = {}
             \<longrightarrow> c \<in> set (filter_by_factions cs f))"
proof (rule conjI [OF filter_by_factions_keeps [OF assms(1)]], intro ballI impI)
  fix c assume "c \<in> set cs" and "faction_symbols_of (influence c) = {}"
  with assms(2) show "c \<in> set (filter_by_factions cs f)"
    by (simp add: filter_by_factions_keeps [OF assms(1)])
qed

theorem filter_by_factions_spec_witness:
  "truthy (allowed_factions fire_time_mono)
   \<and> max_factions_per_card fire_time_mono = Some 1
   \<and> filter_by_factions [torch, harsh_rule, praxis_banner, seek_power] fire_time_mono =
       [torch, seek_power]
   \<and> faction_symbols_of (influence seek_power) = {}
   \<and> seek_power \<in> set (filter_by_factions [torch, harsh_rule, praxis_banner, seek_power]
                                           fire_time_mono)"
proof -
  have t: "truthy (allowed_factions fire_time_mono)"
    by code_simp
  have m: "max_factions_per_card fire_time_mono = Some 1"
    by (simp add: fire_time_mono_def default_filters_def)
  then have d: "\<forall>m. max_factions_per_card fire_time_mono = Some m \<longrightarrow> 0 \<le> m"
    by simp
  have r: "filter_by_factions [torch, harsh_rule, praxis_banner, seek_power] fire_time_mono =
       [torch, seek_power]"
    by code_simp
  have e: "faction_symbols_of (influence seek_power) = {}"
    by (simp add: faction_symbols_of_def seek_power_def)
  have i: "seek_power \<in> set [torch, harsh_rule, praxis_banner, seek_power]"
    by simp
  from filter_by_factions_spec [OF t d, of "[torch, harsh_rule, praxis_banner, seek_power]"]
  have "\<forall>c \<in> set [torch, harsh_rule, praxis_banner, seek_power].
          faction_symbols_of (influence c) = {}
          \<longrightarrow> c \<in> set (filter_by_factions [torch, harsh_rule, praxis_banner, seek_power]
                                         fire_time_mono)"
    by (rule conjunct2)
  from this [rule_format, OF i e] t r e m show ?thesis by blast
qed

text \<open>Outside the documented range: with the limit \<open>-1\<close> no card is kept.\<close>

lemma filter_by_factions_negative_limit:
  "truthy (allowed_factions fire_negative_limit)
   \<and> influence seek_power = []
   \<and> card_factions seek_power = {}
   \<and> max_factions_per_card fire_negative_limit = Some (- 1)
   \<and> filter_by_factions [seek_power] fire_negative_limit = []"
  by code_simp

section \<open>The card pool of the scout\<close>

lemma bucket_loop_filters:
  "bucket_loop rel s cs (m, c, y, p) =
     (m @ filter (\<lambda>x. bucket_of rel s x = 0) cs,
      c @ filter (\<lambda>x. bucket_of rel s x = 1) cs,
      y @ filter (\<lambda>x. bucket_of rel s x = 2) cs,
      p @ filter (\<lambda>x. bucket_of rel s x = 3) cs)"
  by (induction cs arbitrary: m c y p) (simp_all add: bucket_of_def)

lemma bucket_of_range: "bucket_of rel s x \<in> {0, 1, 2, 3}"
  by (simp add: bucket_of_def)

lemma mset_buckets:
  "mset (filter (\<lambda>x. bucket_of rel s x = 0) cs) +
   mset (filter (\<lambda>x. bucket_of rel s x = 1) cs) +
   mset (filter (\<lambda>x. bucket_of rel s x = 2) cs) +
   mset (filter (\<lambda>x. bucket_of rel s x = 3) cs) = mset cs"
proof (induction cs)
  case Nil
  then show ?case by simp
next
  case (Cons a cs)
  from bucket_of_range [of rel s a] Cons show ?case
    by (auto simp del: mset_filter)
qed

lemma dedup_loop_distinct_names:
  "distinct (map name xs) \<Longrightarrow> name ` set xs \<inter> seen = {} \<Longrightarrow> dedup_loop xs seen acc = acc @ xs"
  by (induction xs arbitrary: seen acc) auto

lemma dedup_loop_distinct:
  "distinct (map name acc) \<Longrightarrow> name ` set acc \<subseteq> seen \<Longrightarrow>
     distinct (map name (dedup_loop xs seen acc))"
proof (induction xs arbitrary: seen acc)
  case Nil
  then show ?case by simp
next
  case (Cons a xs)
  show ?case
  proof (cases "name a \<in> seen")
    case True
    with Cons show ?thesis by simp
  next
    case False
    with Cons.prems have "distinct (map name (acc @ [a]))"
      and "name ` set (acc @ [a]) \<subseteq> insert (name a) seen"
      by auto
    from Cons.IH [OF this] False show ?thesis by simp
  qed
qed

lemma organize_card_pool_eq:
  "organize_card_pool rel cs s = dedup_loop (organized_list rel cs s) {} []"
  by (simp add: organize_card_pool_def bucket_loop_filters organized_list_def)

lemma mset_organized_list: "mset (organized_list rel cs s) = mset cs"
  using mset_buckets [of rel s cs]
  by (simp add: organized_list_def add.assoc del: mset_filter)

text \<open>
  Claim C6. On cards with pairwise distinct names \<open>_organize_card_pool\<close> returns a
  permutation of its input: the cards of the must-include bucket in their order, then
  the core, synergy and support buckets, each sorted by cost. No two cards of the
  result have the same name.
\<close>

theorem organize_card_pool_permutation:
  assumes "distinct (map name cs)"
  shows "mset (organize_card_pool rel cs s) = mset cs
       \<and> distinct (map name (organize_card_pool rel cs s))
       \<and> organize_card_pool rel cs s =
           filter (\<lambda>x. bucket_of rel s x = 0) cs @
           sort_key cost (filter (\<lambda>x. bucket_of rel s x = 1) cs) @
           sort_key cost (filter (\<lambda>x. bucket_of rel s x = 2) cs) @
           sort_key cost (filter (\<lambda>x. bucket_of rel s x = 3) cs)"
proof -
  have "mset (map name (organized_list rel cs s)) = mset (map name cs)"
    by (metis mset_map mset_organized_list)
  with assms have d: "distinct (map name (organized_list rel cs s))"
    using mset_eq_imp_distinct_iff by blast
  then have eq: "organize_card_pool rel cs s = organized_list rel cs s"
    using dedup_loop_distinct_names [of "organized_list rel cs s" "{}" "[]"]
    by (simp add: organize_card_pool_eq)
  from eq d show ?thesis
    by (simp add: mset_organized_list) (simp add: organized_list_def)
qed

theorem organize_card_pool_permutation_witness:
  "distinct (map name [merchant, fire_sigil, torch, harsh_rule, permafrost])
   \<and> organize_card_pool cost_score [merchant, fire_sigil, torch, harsh_rule, permafrost]
        burn_strategy = [harsh_rule, torch, permafrost, merchant, fire_sigil]
   \<and> mset [harsh_rule, torch, permafrost, merchant, fire_sigil] =
       mset [merchant, fire_sigil, torch, harsh_rule, permafrost]
   \<and> distinct (map name [harsh_rule, torch, permafrost, merchant, fire_sigil])"
proof -
  have d: "distinct (map name [merchant, fire_sigil, torch, harsh_rule, permafrost])"
    by (simp add: merchant_def fire_sigil_def torch_def harsh_rule_def permafrost_def)
  have run: "organize_card_pool cost_score [merchant, fire_sigil, torch, harsh_rule, permafrost]
        burn_strategy = [harsh_rule, torch, permafrost, merchant, fire_sigil]"
    by code_simp
  note perm = organize_card_pool_permutation [OF d, of cost_score burn_strategy]
  from perm have m: "mset (organize_card_pool cost_score
        [merchant, fire_sigil, torch, harsh_rule, permafrost] burn_strategy) =
      mset [merchant, fire_sigil, torch, harsh_rule, permafrost]"
    by (rule conjunct1)
  from perm have n: "distinct (map name (organize_card_pool cost_score
        [merchant, fire_sigil, torch, harsh_rule, permafrost] burn_strategy))"
    by (elim conjE)
  from d run m [unfolded run] n [unfolded run] show ?thesis
    by (intro conjI)
qed

text \<open>The names of the result are pairwise distinct for every input.\<close>

lemma organize_card_pool_distinct_names:
  "distinct (map name (organize_card_pool rel cs s))"
  using dedup_loop_distinct [of "[]" "{}" "organized_list rel cs s"]
  by (simp add: organize_card_pool_eq)

section \<open>The spreadsheet client\<close>

lemma card_of_row_buildable: "card_of_row r = Some c \<Longrightarrow> deck_buildable c"
  by (auto simp: card_of_row_def Let_def split: option.splits)

text \<open>Every card that \<open>_parse_card_row\<close> returns is deck buildable.\<close>

lemma parse_card_row_buildable: "parse_card_row r = Inr (Some c) \<Longrightarrow> deck_buildable c"
  by (auto simp: parse_card_row_def split: option.splits if_splits dest: card_of_row_buildable)

text \<open>
  With a \<open>DeckBuildable\<close> cell that is absent or a string, the two guards return
  \<open>None\<close>: on a flag that does not uppercase to \<open>TRUE\<close>, and on a name that is
  absent, empty or zero.
\<close>

lemma parse_card_row_flag:
  assumes "r ''DeckBuildable'' = None \<or> (\<exists>s. r ''DeckBuildable'' = Some (Str s) \<and> upper s \<noteq> ''TRUE'')"
  shows "parse_card_row r = Inr None"
  using assms by (auto simp: parse_card_row_def row_get_def upper_def)

lemma parse_card_row_name:
  assumes "r ''DeckBuildable'' = None \<or> (\<exists>s. r ''DeckBuildable'' = Some (Str s))"
    and "r ''Name'' = None \<or> r ''Name'' = Some (Str []) \<or> r ''Name'' = Some (Num 0)"
  shows "parse_card_row r = Inr None"
  using assms by (auto simp: parse_card_row_def row_get_def)

text \<open>
  \<open>_parse_card_row\<close> raises exactly on a \<open>DeckBuildable\<close> cell that holds a number.
\<close>

lemma parse_card_row_raises_iff:
  "(\<exists>err. parse_card_row r = Inl err) \<longleftrightarrow> (\<exists>n. r ''DeckBuildable'' = Some (Num n))"
proof (cases "r ''DeckBuildable''")
  case None
  then show ?thesis by (simp add: parse_card_row_def row_get_def)
next
  case (Some v)
  then show ?thesis by (cases v) (simp_all add: parse_card_row_def row_get_def)
qed

text \<open>Loading keeps a cache of deck buildable cards, and so does \<open>get_all_cards\<close>.\<close>

lemma load_loop_buildable:
  "\<forall>c \<in> set cache. deck_buildable c \<Longrightarrow> \<forall>c \<in> set (fst (load_loop rs cache)). deck_buildable c"
proof (induction rs arbitrary: cache)
  case Nil
  then show ?case by simp
next
  case (Cons r rs)
  show ?case
  proof (cases "parse_card_row r")
    case (Inl err)
    with Cons.prems show ?thesis by simp
  next
    case (Inr res)
    show ?thesis
    proof (cases res)
      case None
      with Inr Cons show ?thesis by simp
    next
      case (Some c)
      with Inr have "deck_buildable c" using parse_card_row_buildable by blast
      with Cons.prems have "\<forall>x \<in> set (cache @ [c]). deck_buildable x" by simp
      from Cons.IH [OF this] Inr Some show ?thesis by simp
    qed
  qed
qed

lemma load_all_cards_buildable:
  assumes "\<forall>c \<in> set (cards_cache client). deck_buildable c"
  shows "\<forall>c \<in> set (cards_cache (fst (load_all_cards fetched client))). deck_buildable c"
proof (cases fetched)
  case None
  with assms show ?thesis by (simp add: load_all_cards_def)
next
  case (Some rs)
  obtain cache ok where l: "load_loop rs (cards_cache client) = (cache, ok)"
    by (cases "load_loop rs (cards_cache client)")
  with load_loop_buildable [OF assms, of rs] have "\<forall>c \<in> set cache. deck_buildable c" by simp
  with Some l show ?thesis by (cases ok) (simp_all add: load_all_cards_def)
qed

lemma get_all_cards_buildable:
  assumes "\<forall>c \<in> set (cards_cache client). deck_buildable c"
  shows "(\<forall>c \<in> set (snd (get_all_cards fetched client)). deck_buildable c) \<and>
         (\<forall>c \<in> set (cards_cache (fst (get_all_cards fetched client))). deck_buildable c)"
  using assms load_all_cards_buildable [OF assms, of fetched]
  by (simp add: get_all_cards_def Let_def)

text \<open>
  Claim C10. The claim asks for \<open>None\<close> on every row whose \<open>DeckBuildable\<close> field
  does not uppercase to \<open>TRUE\<close>. On a row whose \<open>DeckBuildable\<close> cell holds the
  number 1 the first guard raises \<open>AttributeError\<close> instead, outside the \<open>try\<close>,
  and the load of the sheet stops at that row with the cache not marked as loaded.
\<close>

theorem parse_card_row_numeric_flag:
  "parse_card_row numeric_flag_row = Inl AttributeError
   \<and> load_all_cards (Some [torch_row, numeric_flag_row, torch_row]) new_client =
       (\<lparr>cards_cache = [torch\<lparr>eternal_id := Some []\<rparr>], cache_loaded = False\<rparr>, False)"
  by code_simp

end
